theory Spec2Isabelle
  imports Main "HOL-Library.Char_ord" "HOL-Library.List_Lexorder"
begin

section \<open>The Go backend: \<open>go-api/main.go\<close>\<close>

subsection \<open>Requests, header maps and the response writer of \<open>net/http\<close>\<close>

text \<open>
  \<open>main.go\<close> is written against three interfaces of Go's \<open>net/http\<close>: the header map
  \<open>http.Header\<close> (a \<open>map[string][]string\<close>), the request \<open>*http.Request\<close> and the
  \<open>http.ResponseWriter\<close>. A key that is absent from a Go map is \<open>None\<close> here. Header
  names are taken in their canonical MIME form, as the server stores them.
\<close>

type_synonym Header = "string \<rightharpoonup> string list"

definition Header_Get :: "Header \<Rightarrow> string \<Rightarrow> string" where
  "Header_Get h key = (case h key of None \<Rightarrow> [] | Some [] \<Rightarrow> [] | Some (v # _) \<Rightarrow> v)"

definition Header_Set :: "Header \<Rightarrow> string \<Rightarrow> string \<Rightarrow> Header" where
  "Header_Set h key v = h(key \<mapsto> [v])"

definition Header_Add :: "Header \<Rightarrow> string \<Rightarrow> string \<Rightarrow> Header" where
  "Header_Add h key v = h(key \<mapsto> (case h key of None \<Rightarrow> [] | Some vs \<Rightarrow> vs) @ [v])"

record Request =
  Method :: string
  Path :: string
  ReqHeader :: Header

text \<open>
  The response writer is the state a handler mutates: the header map \<open>w.Header()\<close>,
  whether the status line has been written, the status code, the bytes the handler
  has written to the body, and the informational (1xx) status lines sent so far.
  \<open>WriteHeader\<close> with a code from 100 to 199 other than 101 sends an informational
  response and leaves the writer unwritten (Go 1.19 and later); with any other code
  it takes effect once. \<open>Write\<close> sends status 200 first when no status has been sent,
  and writes nothing for a status that allows no body. The program passes no code to
  \<open>WriteHeader\<close> but the six constants below; a code outside 100 to 999, on which Go
  panics, is passed nowhere.
\<close>

record ResponseWriter =
  header :: Header
  wroteHeader :: bool
  status :: nat
  body :: string
  informational :: "nat list"

definition newResponseWriter :: ResponseWriter where
  "newResponseWriter =
     \<lparr>header = Map.empty, wroteHeader = False, status = 0, body = [], informational = []\<rparr>"

definition StatusOK :: nat where "StatusOK = 200"
definition StatusNoContent :: nat where "StatusNoContent = 204"
definition StatusMovedPermanently :: nat where "StatusMovedPermanently = 301"
definition StatusNotModified :: nat where "StatusNotModified = 304"
definition StatusBadRequest :: nat where "StatusBadRequest = 400"
definition StatusNotFound :: nat where "StatusNotFound = 404"
definition StatusSwitchingProtocols :: nat where "StatusSwitchingProtocols = 101"

definition WriteHeader :: "ResponseWriter \<Rightarrow> nat \<Rightarrow> ResponseWriter" where
  "WriteHeader w code =
     (if wroteHeader w then w
      else if 100 \<le> code \<and> code \<le> 199 \<and> code \<noteq> StatusSwitchingProtocols
      then w\<lparr>informational := informational w @ [code]\<rparr>
      else w\<lparr>wroteHeader := True, status := code\<rparr>)"

definition bodyAllowedForStatus :: "nat \<Rightarrow> bool" where
  "bodyAllowedForStatus code =
     (if 100 \<le> code \<and> code \<le> 199 then False
      else if code = StatusNoContent then False
      else if code = StatusNotModified then False
      else True)"

definition Write :: "ResponseWriter \<Rightarrow> string \<Rightarrow> ResponseWriter" where
  "Write w data =
     (let w1 = (if wroteHeader w then w else WriteHeader w StatusOK)
      in if bodyAllowedForStatus (status w1) then w1\<lparr>body := body w1 @ data\<rparr> else w1)"

text \<open>
  \<open>fmt.Fprintf(w, format)\<close> with a format that holds no verb (no \<open>%\<close>) and no
  arguments writes the format itself.
\<close>

definition Fprintf :: "ResponseWriter \<Rightarrow> string \<Rightarrow> ResponseWriter" where
  "Fprintf w format = Write w format"

type_synonym Handler = "ResponseWriter \<Rightarrow> Request \<Rightarrow> ResponseWriter"

subsection \<open>The handler of \<open>main.go\<close>\<close>

text \<open>
  \<^verbatim>\<open>func handler(w http.ResponseWriter, r *http.Request) {
      fmt.Fprintf(w, "Hello from Go API!")
  }\<close>
\<close>

definition handler :: Handler where
  "handler w r = Fprintf w ''Hello from Go API!''"

subsection \<open>\<open>path.Clean\<close> and the path cleaning of \<open>ServeMux\<close>\<close>

text \<open>
  \<open>http.HandleFunc("/", handler)\<close> registers the handler with \<open>http.DefaultServeMux\<close>.
  What the mux does with a request is part of Go's standard library (the image builds
  with \<open>golang:1.20\<close>); it is modelled here function by function. The first step of
  the mux is \<open>cleanPath\<close>, which rests on \<open>path.Clean\<close>: a loop over the path with a
  read position, an output buffer and the index \<open>dotdot\<close> behind which \<open>..\<close> may not
  back up. The loop is a recursion on the unread rest of the path; the buffer \<open>out\<close>
  holds the bytes written so far, so \<open>out.w\<close> is \<open>length out\<close>.
\<close>

fun backtrack_rev :: "nat \<Rightarrow> string \<Rightarrow> string" where
  "backtrack_rev dotdot [] = []"
| "backtrack_rev dotdot (c # rest) =
     (if length rest > dotdot \<and> c \<noteq> CHR ''/'' then backtrack_rev dotdot rest else rest)"

function clean_loop :: "bool \<Rightarrow> nat \<Rightarrow> string \<Rightarrow> string \<Rightarrow> string" where
  "clean_loop rooted dotdot out [] = out"
| "clean_loop rooted dotdot out (c # r) =
     (if c = CHR ''/'' then clean_loop rooted dotdot out r
      else if c = CHR ''.'' \<and> (case r of [] \<Rightarrow> True | d # _ \<Rightarrow> d = CHR ''/'') then
        clean_loop rooted dotdot out r
      else if c = CHR ''.'' \<and>
          (case r of [] \<Rightarrow> False
           | d # r2 \<Rightarrow> d = CHR ''.'' \<and> (case r2 of [] \<Rightarrow> True | e # _ \<Rightarrow> e = CHR ''/'')) then
        (if length out > dotdot then
           clean_loop rooted dotdot (rev (backtrack_rev dotdot (rev out))) (tl r)
         else if \<not> rooted then
           (let out1 = (if length out > 0 then out @ ''/'' else out);
                out2 = out1 @ ''..''
            in clean_loop rooted (length out2) out2 (tl r))
         else clean_loop rooted dotdot out (tl r))
      else
        (let out1 = (if (rooted \<and> length out \<noteq> 1) \<or> (\<not> rooted \<and> length out \<noteq> 0)
                     then out @ ''/'' else out)
         in clean_loop rooted dotdot (out1 @ takeWhile (\<lambda>x. x \<noteq> CHR ''/'') (c # r))
              (dropWhile (\<lambda>x. x \<noteq> CHR ''/'') (c # r))))"
  by pat_completeness auto
termination
  by (relation "measure (\<lambda>(rooted, dotdot, out, p). length p)")
     (auto simp: less_Suc_eq_le length_dropWhile_le split: list.splits)

definition Clean :: "string \<Rightarrow> string" where
  "Clean p =
     (case p of [] \<Rightarrow> ''.''
      | c # r \<Rightarrow>
          (let rooted = (c = CHR ''/'');
               out = (if rooted then clean_loop True 1 ''/'' r else clean_loop False 0 [] p)
           in if out = [] then ''.'' else out))"

definition HasPrefix :: "string \<Rightarrow> string \<Rightarrow> bool" where
  "HasPrefix s pre = (length s \<ge> length pre \<and> take (length pre) s = pre)"

definition cleanPath :: "string \<Rightarrow> string" where
  "cleanPath p =
     (case p of [] \<Rightarrow> ''/''
      | c # _ \<Rightarrow>
          (let p1 = (if c \<noteq> CHR ''/'' then CHR ''/'' # p else p);
               np = Clean p1
           in if last p1 = CHR ''/'' \<and> np \<noteq> ''/'' then
                (if length p1 = length np + 1 \<and> HasPrefix p1 np then p1 else np @ ''/'')
              else np))"

subsection \<open>\<open>http.ServeMux\<close>\<close>

text \<open>
  A mux holds the map \<open>m\<close> from patterns to entries and the slice \<open>es\<close> of the entries
  whose pattern ends in a slash, longest first. \<open>Handle\<close> panics on an empty or an
  already registered pattern: that is \<open>None\<close>. A pattern that starts with a host name
  instead of a slash is outside this model (the program registers none, and the
  request record carries no host), and \<open>Handle\<close> answers \<open>None\<close> for it as well.
\<close>

record muxEntry =
  entry_h :: Handler
  entry_pattern :: string

record ServeMux =
  mux_m :: "string \<rightharpoonup> muxEntry"
  mux_es :: "muxEntry list"

definition DefaultServeMux :: ServeMux where
  "DefaultServeMux = \<lparr>mux_m = Map.empty, mux_es = []\<rparr>"

definition appendSorted :: "muxEntry list \<Rightarrow> muxEntry \<Rightarrow> muxEntry list" where
  "appendSorted es e =
     takeWhile (\<lambda>x. \<not> length (entry_pattern x) < length (entry_pattern e)) es @ [e] @
     dropWhile (\<lambda>x. \<not> length (entry_pattern x) < length (entry_pattern e)) es"

definition ServeMux_Handle :: "ServeMux \<Rightarrow> string \<Rightarrow> Handler \<Rightarrow> ServeMux option" where
  "ServeMux_Handle mux pat hfn =
     (case pat of [] \<Rightarrow> None
      | c # _ \<Rightarrow>
          if mux_m mux pat \<noteq> None then None
          else if c \<noteq> CHR ''/'' then None
          else
            (let e = \<lparr>entry_h = hfn, entry_pattern = pat\<rparr>
             in Some \<lparr>mux_m = (mux_m mux)(pat \<mapsto> e),
                      mux_es = (if last pat = CHR ''/'' then appendSorted (mux_es mux) e
                                else mux_es mux)\<rparr>))"

definition HandleFunc :: "ServeMux \<Rightarrow> string \<Rightarrow> Handler \<Rightarrow> ServeMux option" where
  "HandleFunc mux pat hfn = ServeMux_Handle mux pat hfn"

definition ServeMux_match :: "ServeMux \<Rightarrow> string \<Rightarrow> muxEntry option" where
  "ServeMux_match mux p =
     (case mux_m mux p of Some v \<Rightarrow> Some v
      | None \<Rightarrow> find (\<lambda>e. HasPrefix p (entry_pattern e)) (mux_es mux))"

definition shouldRedirectRLocked :: "ServeMux \<Rightarrow> string \<Rightarrow> bool" where
  "shouldRedirectRLocked mux p =
     (if mux_m mux p \<noteq> None then False
      else if p = [] then False
      else if mux_m mux (p @ ''/'') \<noteq> None then last p \<noteq> CHR ''/''
      else False)"

definition Error :: "ResponseWriter \<Rightarrow> string \<Rightarrow> nat \<Rightarrow> ResponseWriter" where
  "Error w msg code =
     (let h1 = Header_Set (header w) ''Content-Type'' ''text/plain; charset=utf-8'';
          h2 = Header_Set h1 ''X-Content-Type-Options'' ''nosniff'';
          w1 = WriteHeader (w\<lparr>header := h2\<rparr>) code
      in Write w1 (msg @ [CHR 0x0A]))"

definition NotFound :: Handler where
  "NotFound w r = Error w ''404 page not found'' StatusNotFound"

text \<open>
  The redirect reply is modelled by its \<open>Location\<close> header and its status. The short
  HTML page that \<open>http.Redirect\<close> adds for a GET, and the escaping of the URL, are not
  modelled, so nothing below speaks about the body of a redirect.
\<close>

definition Redirect :: "string \<Rightarrow> nat \<Rightarrow> Handler" where
  "Redirect url code w r = WriteHeader (w\<lparr>header := Header_Set (header w) ''Location'' url\<rparr>) code"

definition ServeMux_handler :: "ServeMux \<Rightarrow> string \<Rightarrow> Handler" where
  "ServeMux_handler mux p =
     (case ServeMux_match mux p of Some e \<Rightarrow> entry_h e | None \<Rightarrow> NotFound)"

text \<open>
  \<open>ServeMux.Handler\<close>: a CONNECT request is not canonicalised; any other request whose
  path differs from its cleaned form is answered with a redirect to the cleaned path.
\<close>

definition ServeMux_Handler :: "ServeMux \<Rightarrow> Request \<Rightarrow> Handler" where
  "ServeMux_Handler mux r =
     (if Method r = ''CONNECT'' then
        (if shouldRedirectRLocked mux (Path r)
         then Redirect (Path r @ ''/'') StatusMovedPermanently
         else ServeMux_handler mux (Path r))
      else
        (let p = cleanPath (Path r)
         in if shouldRedirectRLocked mux p then Redirect (p @ ''/'') StatusMovedPermanently
            else if p \<noteq> Path r then Redirect p StatusMovedPermanently
            else ServeMux_handler mux (Path r)))"

text \<open>
  \<open>ServeMux.ServeHTTP\<close> answers the request target \<open>*\<close> (as in \<open>OPTIONS *\<close>) with 400
  before any lookup, and over HTTP/1.1 asks for the connection to be closed; for that
  target, and for no other, the server sets the path to \<open>*\<close>.
\<close>

definition ServeMux_ServeHTTP :: "ServeMux \<Rightarrow> Handler" where
  "ServeMux_ServeHTTP mux w r =
     (if Path r = ''*'' then
        WriteHeader (w\<lparr>header := Header_Set (header w) ''Connection'' ''close''\<rparr>) StatusBadRequest
      else ServeMux_Handler mux r w r)"

subsection \<open>The CORS middleware \<open>github.com/rs/cors\<close>\<close>

text \<open>
  \<open>main.go\<close> wraps the mux with \<open>cors.New(options).Handler\<close>. The module is an import
  of the program; the model follows its release 1.11 and holds the fields and branches
  that the handling of a request goes through. \<open>main.go\<close> sets three options; the
  others keep Go's zero value, which \<open>New\<close> turns into the defaults written out below.
  The set of allowed request headers is a \<open>SortedSet\<close> of the module's internal
  package; it is represented by its method \<open>Accepts\<close>, and its constructor is a
  parameter of the model, so that every statement below holds whatever \<open>Accepts\<close>
  computes.
\<close>

text \<open>
  \<open>strings.ToLower\<close> on ASCII letters, which is all that the option values and header
  names of this program hold.
\<close>

definition ToLower :: "string \<Rightarrow> string" where
  "ToLower s =
     map (\<lambda>c. case map_of (zip ''ABCDEFGHIJKLMNOPQRSTUVWXYZ'' ''abcdefghijklmnopqrstuvwxyz'') c of
                 None \<Rightarrow> c
               | Some l \<Rightarrow> l) s"

definition HasSuffix :: "string \<Rightarrow> string \<Rightarrow> bool" where
  "HasSuffix s suf = (length s \<ge> length suf \<and> drop (length s - length suf) s = suf)"

type_synonym SortedSet = "string list \<Rightarrow> bool"

type_synonym wildcard = "string \<times> string"

definition wildcard_match :: "wildcard \<Rightarrow> string \<Rightarrow> bool" where
  "wildcard_match w s =
     (length s \<ge> length (fst w) + length (snd w) \<and> HasPrefix s (fst w) \<and> HasSuffix s (snd w))"

record Options =
  AllowedOrigins :: "string list"
  AllowedMethods :: "string list"
  AllowedHeaders :: "string list"

record Cors =
  allowedOrigins :: "string list"
  allowedWOrigins :: "wildcard list"
  allowedOriginsAll :: bool
  allowedHeaders :: SortedSet
  allowedHeadersAll :: bool
  allowedMethods :: "string list"
  exposedHeaders :: "string list"
  maxAge :: "string list"
  allowCredentials :: bool
  allowPrivateNetwork :: bool
  optionPassthrough :: bool
  preflightVary :: "string list"
  optionsSuccessStatus :: nat

text \<open>
  The loop of \<open>New\<close> over the allowed origins: an origin \<open>*\<close> turns the whole list into
  "match all" and leaves the loop; an origin with a \<open>*\<close> inside becomes a wildcard of
  the text before and after it. The result is \<open>(allowedOriginsAll, allowedOrigins,
  allowedWOrigins)\<close>.
\<close>

fun splitOrigins ::
  "string list \<Rightarrow> string list \<Rightarrow> wildcard list \<Rightarrow> bool \<times> string list \<times> wildcard list" where
  "splitOrigins [] os ws = (False, os, ws)"
| "splitOrigins (o1 # rest) os ws =
     (let origin = ToLower o1
      in if origin = ''*'' then (True, [], [])
         else if CHR ''*'' \<in> set origin then
           splitOrigins rest os
             (ws @ [(takeWhile (\<lambda>c. c \<noteq> CHR ''*'') origin,
                     tl (dropWhile (\<lambda>c. c \<noteq> CHR ''*'') origin))])
         else splitOrigins rest (os @ [origin]) ws)"

definition cors_New :: "(string list \<Rightarrow> SortedSet) \<Rightarrow> Options \<Rightarrow> Cors" where
  "cors_New NewSortedSet options =
     (let origins = (if AllowedOrigins options = [] then (True, [], [])
                     else splitOrigins (AllowedOrigins options) [] []);
          headersAll = (AllowedHeaders options \<noteq> [] \<and> ''*'' \<in> set (AllowedHeaders options))
      in \<lparr>allowedOrigins = fst (snd origins),
          allowedWOrigins = snd (snd origins),
          allowedOriginsAll = fst origins,
          allowedHeaders =
            (if AllowedHeaders options = []
             then NewSortedSet [''accept'', ''content-type'', ''x-requested-with'']
             else if headersAll then NewSortedSet []
             else NewSortedSet (map ToLower (AllowedHeaders options))),
          allowedHeadersAll = headersAll,
          allowedMethods =
            (if AllowedMethods options = [] then [''GET'', ''POST'', ''HEAD'']
             else AllowedMethods options),
          exposedHeaders = [],
          maxAge = [],
          allowCredentials = False,
          allowPrivateNetwork = False,
          optionPassthrough = False,
          preflightVary =
            [''Origin, Access-Control-Request-Method, Access-Control-Request-Headers''],
          optionsSuccessStatus = StatusNoContent\<rparr>)"

definition isOriginAllowed :: "Cors \<Rightarrow> string \<Rightarrow> bool" where
  "isOriginAllowed c origin =
     (if allowedOriginsAll c then True
      else if ToLower origin \<in> set (allowedOrigins c) then True
      else list_ex (\<lambda>w. wildcard_match w (ToLower origin)) (allowedWOrigins c))"

definition isMethodAllowed :: "Cors \<Rightarrow> string \<Rightarrow> bool" where
  "isMethodAllowed c method =
     (if allowedMethods c = [] then False
      else if method = ''OPTIONS'' then True
      else method \<in> set (allowedMethods c))"

text \<open>
  \<open>handlePreflight\<close> and \<open>handleActualRequest\<close> only write to the header map of the
  response; each early \<open>return\<close> of the source is a branch that hands back the writer
  as it stands. \<open>handlePreflight\<close> reads \<open>reqHeaders[0]\<close> once the request has passed
  the policy: on a header that is present with an empty list of values this read
  panics, which is the result \<open>None\<close>. (The server stores no such header: a key that
  is present in the header map of a request it has parsed holds at least one value.)
\<close>

definition handlePreflight ::
  "Cors \<Rightarrow> ResponseWriter \<Rightarrow> Request \<Rightarrow> ResponseWriter option" where
  "handlePreflight c w r =
     (let origin = Header_Get (ReqHeader r) ''Origin''
      in if Method r \<noteq> ''OPTIONS'' then Some w
         else
           (let w1 = w\<lparr>header :=
                  (case header w ''Vary'' of
                     Some vary \<Rightarrow> (header w)(''Vary'' \<mapsto> vary @ take 1 (preflightVary c))
                   | None \<Rightarrow> (header w)(''Vary'' \<mapsto> preflightVary c))\<rparr>;
                reqMethod = Header_Get (ReqHeader r) ''Access-Control-Request-Method'';
                found = ReqHeader r ''Access-Control-Request-Headers''
            in if origin = [] then Some w1
               else if \<not> isOriginAllowed c origin then Some w1
               else if \<not> isMethodAllowed c reqMethod then Some w1
               else if (case found of None \<Rightarrow> False
                        | Some reqHeaders \<Rightarrow>
                            \<not> allowedHeadersAll c \<and> \<not> allowedHeaders c reqHeaders)
               then Some w1
               else
                 (let h1 = (if allowedOriginsAll c
                            then (header w1)(''Access-Control-Allow-Origin'' \<mapsto> [''*''])
                            else (header w1)(''Access-Control-Allow-Origin'' :=
                                   ReqHeader r ''Origin''));
                      h2 = h1(''Access-Control-Allow-Methods'' :=
                             ReqHeader r ''Access-Control-Request-Method'')
                  in case (case found of
                             None \<Rightarrow> Some h2
                           | Some [] \<Rightarrow> None
                           | Some (v # vs) \<Rightarrow>
                               if length v > 0
                               then Some (h2(''Access-Control-Allow-Headers'' \<mapsto> v # vs))
                               else Some h2) of
                       None \<Rightarrow> None
                     | Some h3 \<Rightarrow>
                         (let h4 = (if allowCredentials c
                                    then h3(''Access-Control-Allow-Credentials'' \<mapsto> [''true''])
                                    else h3);
                              h5 = (if allowPrivateNetwork c \<and>
                                       Header_Get (ReqHeader r)
                                         ''Access-Control-Request-Private-Network'' = ''true''
                                    then h4(''Access-Control-Allow-Private-Network'' \<mapsto>
                                            [''true''])
                                    else h4);
                              h6 = (if length (maxAge c) > 0
                                    then h5(''Access-Control-Max-Age'' \<mapsto> maxAge c) else h5)
                          in Some (w1\<lparr>header := h6\<rparr>)))))"

definition handleActualRequest :: "Cors \<Rightarrow> ResponseWriter \<Rightarrow> Request \<Rightarrow> ResponseWriter" where
  "handleActualRequest c w r =
     (let origin = Header_Get (ReqHeader r) ''Origin'';
          allowed = isOriginAllowed c origin;
          w1 = w\<lparr>header :=
                 (case header w ''Vary'' of
                    None \<Rightarrow> (header w)(''Vary'' \<mapsto> [''Origin''])
                  | Some vary \<Rightarrow> Header_Add (header w) ''Vary'' ''Origin'')\<rparr>
      in if origin = [] then w1
         else if \<not> allowed then w1
         else if \<not> isMethodAllowed c (Method r) then w1
         else
           (let h1 = (if allowedOriginsAll c
                      then (header w1)(''Access-Control-Allow-Origin'' \<mapsto> [''*''])
                      else (header w1)(''Access-Control-Allow-Origin'' := ReqHeader r ''Origin''));
                h2 = (if length (exposedHeaders c) > 0
                      then h1(''Access-Control-Expose-Headers'' \<mapsto> exposedHeaders c) else h1);
                h3 = (if allowCredentials c
                      then h2(''Access-Control-Allow-Credentials'' \<mapsto> [''true'']) else h2)
            in w1\<lparr>header := h3\<rparr>))"

text \<open>
  \<open>Cors.Handler\<close>: a request is a pre-flight when its method is OPTIONS and it carries
  a non-empty \<open>Access-Control-Request-Method\<close>. A pre-flight stops the chain here
  unless \<open>OptionsPassthrough\<close> is set; every other request goes on to the wrapped
  handler. The result is \<open>None\<close> when \<open>handlePreflight\<close> panics.
\<close>

type_synonym ServerHandler = "ResponseWriter \<Rightarrow> Request \<Rightarrow> ResponseWriter option"

definition isPreflight :: "Request \<Rightarrow> bool" where
  "isPreflight r =
     (Method r = ''OPTIONS'' \<and> Header_Get (ReqHeader r) ''Access-Control-Request-Method'' \<noteq> [])"

definition Cors_Handler :: "Cors \<Rightarrow> Handler \<Rightarrow> ServerHandler" where
  "Cors_Handler c next_h w r =
     (if Method r = ''OPTIONS'' \<and> Header_Get (ReqHeader r) ''Access-Control-Request-Method'' \<noteq> []
      then
        (case handlePreflight c w r of
           None \<Rightarrow> None
         | Some w1 \<Rightarrow>
             if optionPassthrough c then Some (next_h w1 r)
             else Some (WriteHeader w1 (optionsSuccessStatus c)))
      else Some (next_h (handleActualRequest c w r) r))"

subsection \<open>\<open>main\<close>\<close>

text \<open>
  \<^verbatim>\<open>corsHandler := cors.New(cors.Options{
      AllowedOrigins: []string{"*"},
      AllowedMethods: []string{"GET", "POST", "PUT", "DELETE", "OPTIONS"},
      AllowedHeaders: []string{"Content-Type"},
  })
  http.HandleFunc("/", handler)
  handlerWithCORS := corsHandler.Handler(http.DefaultServeMux)
  http.ListenAndServe(":8080", handlerWithCORS)\<close>

  \<open>main\<close> yields the server it starts: the address it listens on and the handler it
  serves with; \<open>None\<close> stands for the panic of a failed registration.
\<close>

record Server =
  Addr :: string
  srvHandler :: ServerHandler

definition corsOptions :: Options where
  "corsOptions =
     \<lparr>AllowedOrigins = [''*''],
      AllowedMethods = [''GET'', ''POST'', ''PUT'', ''DELETE'', ''OPTIONS''],
      AllowedHeaders = [''Content-Type'']\<rparr>"

definition main :: "(string list \<Rightarrow> SortedSet) \<Rightarrow> Server option" where
  "main NewSortedSet =
     (let corsHandler = cors_New NewSortedSet corsOptions
      in case HandleFunc DefaultServeMux ''/'' handler of
           None \<Rightarrow> None
         | Some mux \<Rightarrow>
             (let handlerWithCORS = Cors_Handler corsHandler (ServeMux_ServeHTTP mux)
              in Some \<lparr>Addr = '':8080'', srvHandler = handlerWithCORS\<rparr>))"

text \<open>
  The server of \<open>net/http\<close> runs the handler on a fresh writer for every request,
  with two cases of its own. The request \<open>OPTIONS *\<close> never reaches the handler of the
  program: the server answers it with its \<open>globalOptionsHandler\<close>, which sets
  \<open>Content-Length: 0\<close> and writes nothing. And the body that a handler writes for a
  HEAD request is not sent. A handler that returns without having written a status
  gets status 200 when the server finishes the request; when the handler panics the
  server sends no response, which is \<open>None\<close>. So the \<open>body\<close> of the writer a handler
  returns is what the handler wrote, and the \<open>body\<close> of the writer \<open>serve\<close> returns is
  what the client is sent. \<open>respond\<close> is the response of the program to one request.
\<close>

definition globalOptionsHandler :: Handler where
  "globalOptionsHandler w r = w\<lparr>header := Header_Set (header w) ''Content-Length'' ''0''\<rparr>"

definition serve :: "Server \<Rightarrow> Request \<Rightarrow> ResponseWriter option" where
  "serve srv r =
     (case (if Path r = ''*'' \<and> Method r = ''OPTIONS''
            then Some (globalOptionsHandler newResponseWriter r)
            else srvHandler srv newResponseWriter r) of
        None \<Rightarrow> None
      | Some w \<Rightarrow>
          (let w1 = (if wroteHeader w then w else WriteHeader w StatusOK)
           in Some (if Method r = ''HEAD'' then w1\<lparr>body := []\<rparr> else w1)))"

definition respond :: "(string list \<Rightarrow> SortedSet) \<Rightarrow> Request \<Rightarrow> ResponseWriter option" where
  "respond NewSortedSet r =
     (case main NewSortedSet of None \<Rightarrow> None | Some srv \<Rightarrow> serve srv r)"

text \<open>
  Two abbreviations for the statements about pre-flights. A pre-flight passes the
  policy of \<open>main.go\<close> when it names an origin, asks for one of the configured
  methods, and either asks for no headers or for headers that the set built from
  \<open>Content-Type\<close> accepts. \<open>varied\<close> is the header map after the \<open>Vary\<close> entry of a
  pre-flight has been added.
\<close>

definition preflightAllowed :: "(string list \<Rightarrow> SortedSet) \<Rightarrow> Request \<Rightarrow> bool" where
  "preflightAllowed NSS r =
     (Header_Get (ReqHeader r) ''Origin'' \<noteq> [] \<and>
      Header_Get (ReqHeader r) ''Access-Control-Request-Method''
        \<in> set [''GET'', ''POST'', ''PUT'', ''DELETE'', ''OPTIONS''] \<and>
      (case ReqHeader r ''Access-Control-Request-Headers'' of
         None \<Rightarrow> True | Some hs \<Rightarrow> NSS [''content-type''] hs))"


text \<open>
  For runs on concrete requests the constructor parameter is instantiated with
  \<open>plainSet\<close>, a set in the manner of the library's: the names are sorted and
  repetitions dropped; a list of header values is accepted when its comma-separated
  elements, trimmed of spaces and tabs, are names of the set at strictly increasing
  positions (so they are sorted and none occurs twice); empty elements are passed
  over. The bounds that the library puts on the whitespace, on the length of an
  element and on the number of empty elements are left out.
\<close>

fun split_at :: "char \<Rightarrow> string \<Rightarrow> string list" where
  "split_at d [] = [[]]"
| "split_at d (c # s) =
     (if c = d then [] # split_at d s
      else (case split_at d s of [] \<Rightarrow> [[c]] | x # xs \<Rightarrow> (c # x) # xs))"

definition isOWS :: "char \<Rightarrow> bool" where
  "isOWS c = (c = CHR '' '' \<or> c = CHR 0x09)"

definition trimOWS :: "string \<Rightarrow> string" where
  "trimOWS s = rev (dropWhile isOWS (rev (dropWhile isOWS s)))"

fun index_of :: "string \<Rightarrow> string list \<Rightarrow> nat option" where
  "index_of x [] = None"
| "index_of x (y # ys) = (if x = y then Some 0 else map_option Suc (index_of x ys))"

fun accepts_names :: "string list \<Rightarrow> nat option \<Rightarrow> string list \<Rightarrow> bool" where
  "accepts_names names lastSeen [] = True"
| "accepts_names names lastSeen (x # xs) =
     (if x = [] then accepts_names names lastSeen xs
      else (case index_of x names of
              None \<Rightarrow> False
            | Some pos \<Rightarrow>
                if (case lastSeen of None \<Rightarrow> False | Some l \<Rightarrow> pos \<le> l) then False
                else accepts_names names (Some pos) xs))"

definition plainSet :: "string list \<Rightarrow> SortedSet" where
  "plainSet names vals =
     accepts_names (remdups (sort names)) None
       (map trimOWS (concat (map (split_at (CHR '','')) vals)))"

section \<open>The React client: \<open>App.js\<close>\<close>

text \<open>
  \<^verbatim>\<open>function App() {
    const [message, setMessage] = useState('');
    useEffect(() => {
      fetch('http://go-api-service:8080')
        .then(res => res.text())
        .then(data => setMessage(data));
    }, []);
    return <h1>{message || "Loading..."}</h1>;
  }\<close>

  A promise settles once, fulfilled with a value or rejected. \<open>p.then(f)\<close> runs \<open>f\<close> on
  the value of a fulfilled \<open>p\<close> and settles as \<open>f\<close>'s result does; it passes a
  rejection on without running \<open>f\<close>. The source gives no rejection handler anywhere.
  \<open>fetch\<close> rejects on a network failure and fulfils with a response for every HTTP
  status; \<open>res.text()\<close> is again a promise. The repository holds a second copy of the
  component that differs only in the URL (\<open>http://192.168.67.2:30002\<close>, the node
  port of the backend service).
\<close>

datatype 'a settled = Fulfilled 'a | Rejected

definition then_p :: "'a settled \<Rightarrow> ('a \<Rightarrow> 'b settled) \<Rightarrow> 'b settled" where
  "then_p p f = (case p of Fulfilled v \<Rightarrow> f v | Rejected \<Rightarrow> Rejected)"

record FetchResponse =
  res_status :: nat
  res_text :: "string settled"

text \<open>
  The state of a mounted \<open>App\<close>: the \<open>useState\<close> cell \<open>message\<close>, the dependency array
  React remembers for the effect (\<open>None\<close> before the first commit), and, to speak
  about the traffic, the URLs of the requests that are in flight, every request issued
  so far, and every value handed to \<open>setMessage\<close>.
\<close>

record App_state =
  message :: string
  effect_deps :: "string list option"
  in_flight :: "string list"
  requests :: "(string \<times> string) list"
  commits :: "string list"

definition fetch_url :: string where
  "fetch_url = ''http://go-api-service:8080''"

definition fetch :: "string \<Rightarrow> App_state \<Rightarrow> App_state" where
  "fetch url st =
     st\<lparr>in_flight := in_flight st @ [url], requests := requests st @ [(''GET'', url)]\<rparr>"

definition setMessage :: "string \<Rightarrow> App_state \<Rightarrow> App_state" where
  "setMessage data st = st\<lparr>message := data, commits := commits st @ [data]\<rparr>"

definition effect :: "App_state \<Rightarrow> App_state" where
  "effect st = fetch fetch_url st"

text \<open>
  \<open>useEffect(effect, deps)\<close>: React runs the effect after the first commit, and after
  a later commit only when the dependency array differs from the remembered one. The
  array of the source is \<open>[]\<close>. (The model is that of the built application, which
  the container serves; the second mount of React's development mode is no part of
  it.)
\<close>

definition areHookInputsEqual :: "string list \<Rightarrow> string list \<Rightarrow> bool" where
  "areHookInputsEqual nextDeps prevDeps = (nextDeps = prevDeps)"

definition useEffect :: "(App_state \<Rightarrow> App_state) \<Rightarrow> string list \<Rightarrow> App_state \<Rightarrow> App_state" where
  "useEffect eff deps st =
     (case effect_deps st of
        None \<Rightarrow> (eff st)\<lparr>effect_deps := Some deps\<rparr>
      | Some prevDeps \<Rightarrow>
          if areHookInputsEqual deps prevDeps then st\<lparr>effect_deps := Some deps\<rparr>
          else (eff st)\<lparr>effect_deps := Some deps\<rparr>)"

definition App_commit :: "App_state \<Rightarrow> App_state" where
  "App_commit st = useEffect effect [] st"

definition App_initial :: App_state where
  "App_initial =
     \<lparr>message = [], effect_deps = None, in_flight = [], requests = [], commits = []\<rparr>"

definition mount :: App_state where
  "mount = App_commit App_initial"

text \<open>
  After the mount two things can happen to the component: React renders it again, or
  the pending \<open>fetch\<close> settles and the chain of \<open>then\<close> runs. A settlement with no
  request in flight is no event of the component. A session is the mount followed by
  any sequence of these events.
\<close>

datatype event = Rerender | Settled "FetchResponse settled"

fun step :: "App_state \<Rightarrow> event \<Rightarrow> App_state" where
  "step st Rerender = App_commit st"
| "step st (Settled p) =
     (case in_flight st of
        [] \<Rightarrow> st
      | u # rest \<Rightarrow>
          (case then_p p (\<lambda>res. res_text res) of
             Fulfilled data \<Rightarrow> App_commit (setMessage data (st\<lparr>in_flight := rest\<rparr>))
           | Rejected \<Rightarrow> st\<lparr>in_flight := rest\<rparr>))"

definition session :: "event list \<Rightarrow> App_state" where
  "session evs = foldl step mount evs"

text \<open>
  The text of the \<open>h1\<close> element. JavaScript's \<open>a || b\<close> is \<open>a\<close> when \<open>a\<close> is truthy and
  \<open>b\<close> otherwise; a string is truthy unless it is empty.
\<close>

definition js_or :: "string \<Rightarrow> string \<Rightarrow> string" where
  "js_or a b = (if a \<noteq> [] then a else b)"

definition App_view :: "App_state \<Rightarrow> string" where
  "App_view st = js_or (message st) ''Loading...''"

text \<open>
  An event delivers a text to the page when it is a settlement whose chain reaches
  the last \<open>then\<close>: the \<open>fetch\<close> is fulfilled, with whatever status, and the body of
  the response can be read. A rejected \<open>fetch\<close> (no connection, a timeout of the
  network layer) delivers nothing.
\<close>

definition delivers :: "event \<Rightarrow> bool" where
  "delivers ev =
     (case ev of Rerender \<Rightarrow> False
      | Settled p \<Rightarrow> then_p p (\<lambda>res. res_text res) \<noteq> Rejected)"

text \<open>
  What holds of the state throughout a session: the effect has run, exactly one
  request has been issued, and either that request is still in flight with nothing
  committed, or it has settled with nothing committed, or it has settled and the one
  committed value is the message.
\<close>

definition session_inv :: "App_state \<Rightarrow> bool" where
  "session_inv st =
     (effect_deps st = Some [] \<and> requests st = [(''GET'', fetch_url)] \<and>
      ((in_flight st = [fetch_url] \<and> commits st = [] \<and> message st = []) \<or>
       (in_flight st = [] \<and> commits st = [] \<and> message st = []) \<or>
       (in_flight st = [] \<and> commits st = [message st])))"

text \<open>
  The browser's side of a \<open>fetch\<close> from a page of origin \<open>origin\<close> to the running
  backend: a GET of the root path that names the origin; the response is handed to
  the page only if its \<open>Access-Control-Allow-Origin\<close> is \<open>*\<close> or the origin itself.
\<close>

definition browser_fetch :: "(string list \<Rightarrow> SortedSet) \<Rightarrow> string \<Rightarrow> FetchResponse settled" where
  "browser_fetch NewSortedSet origin =
     (case respond NewSortedSet
             \<lparr>Method = ''GET'', Path = ''/'', ReqHeader = [''Origin'' \<mapsto> [origin]]\<rparr> of
        None \<Rightarrow> Rejected
      | Some w \<Rightarrow>
          if header w ''Access-Control-Allow-Origin'' = Some [''*''] \<or>
             header w ''Access-Control-Allow-Origin'' = Some [origin]
          then Fulfilled \<lparr>res_status = status w, res_text = Fulfilled (body w)\<rparr>
          else Rejected)"

section \<open>The deployment descriptors: \<open>k8s/go-deployment.yaml\<close>\<close>

record Container =
  container_name :: string
  container_image :: string
  containerPorts :: "nat list"

record Deployment =
  deployment_name :: string
  replicas :: nat
  matchLabels :: "(string \<times> string) list"
  template_labels :: "(string \<times> string) list"
  containers :: "Container list"

record ServicePort =
  protocol :: string
  port :: nat
  targetPort :: nat
  nodePort :: "nat option"

record Service =
  service_name :: string
  service_type :: string
  selector :: "(string \<times> string) list"
  ports :: "ServicePort list"

definition go_api_deployment :: Deployment where
  "go_api_deployment =
     \<lparr>deployment_name = ''go-api'',
      replicas = 1,
      matchLabels = [(''app'', ''go-api'')],
      template_labels = [(''app'', ''go-api'')],
      containers =
        [\<lparr>container_name = ''go-api'', container_image = ''ram42847/go-api:latest'',
          containerPorts = [8080]\<rparr>]\<rparr>"

definition go_api_service :: Service where
  "go_api_service =
     \<lparr>service_name = ''go-api-service'',
      service_type = ''NodePort'',
      selector = [(''app'', ''go-api'')],
      ports = [\<lparr>protocol = ''TCP'', port = 8080, targetPort = 8080, nodePort = Some 30002\<rparr>]\<rparr>"

text \<open>
  A deployment runs \<open>replicas\<close> pods of its template. A service selects the pods whose
  labels include its selector, and forwards each of its ports to the target port of
  every selected pod: these pairs are its endpoints.
\<close>

record Pod =
  pod_labels :: "(string \<times> string) list"
  pod_containers :: "Container list"

definition pods_of :: "Deployment \<Rightarrow> Pod list" where
  "pods_of d =
     replicate (replicas d) \<lparr>pod_labels = template_labels d, pod_containers = containers d\<rparr>"

definition selects :: "Service \<Rightarrow> Pod \<Rightarrow> bool" where
  "selects svc p = list_all (\<lambda>kv. kv \<in> set (pod_labels p)) (selector svc)"

definition endpoints :: "Service \<Rightarrow> nat \<Rightarrow> Pod list \<Rightarrow> (Pod \<times> nat) list" where
  "endpoints svc prt pods =
     concat (map (\<lambda>p. if selects svc p
                       then map (\<lambda>sp. (p, targetPort sp)) (filter (\<lambda>sp. port sp = prt) (ports svc))
                       else []) pods)"

text \<open>
  The port of a listen address such as \<open>:8080\<close>: the decimal number after the last
  colon. (Addresses with a bracketed IPv6 host are not modelled.)
\<close>

definition atoi :: "string \<Rightarrow> nat option" where
  "atoi s =
     (if s = [] then None
      else if list_all (\<lambda>c. 48 \<le> (of_char c :: nat) \<and> (of_char c :: nat) \<le> 57) s
      then Some (foldl (\<lambda>n c. 10 * n + ((of_char c :: nat) - 48)) 0 s)
      else None)"

definition listen_port :: "string \<Rightarrow> nat option" where
  "listen_port addr =
     (if CHR '':'' \<notin> set addr then None
      else case atoi (rev (takeWhile (\<lambda>c. c \<noteq> CHR '':'') (rev addr))) of
             None \<Rightarrow> None
           | Some n \<Rightarrow> if n \<le> 65535 then Some n else None)"

definition listens_on :: "(string list \<Rightarrow> SortedSet) \<Rightarrow> nat \<Rightarrow> bool" where
  "listens_on NewSortedSet prt =
     (case main NewSortedSet of None \<Rightarrow> False | Some srv \<Rightarrow> listen_port (Addr srv) = Some prt)"

section \<open>Properties of the backend\<close>

subsection \<open>Cleaned paths are rooted\<close>






subsection \<open>The mux and the middleware that \<open>main\<close> builds\<close>

lemmas status_defs = StatusOK_def StatusNoContent_def StatusMovedPermanently_def
  StatusNotModified_def StatusBadRequest_def StatusNotFound_def
  StatusSwitchingProtocols_def

lemma HandleFunc_root:
  "HandleFunc DefaultServeMux ''/'' handler =
     Some \<lparr>mux_m = [''/'' \<mapsto> \<lparr>entry_h = handler, entry_pattern = ''/''\<rparr>],
           mux_es = [\<lparr>entry_h = handler, entry_pattern = ''/''\<rparr>]\<rparr>"
  by (simp add: HandleFunc_def ServeMux_Handle_def DefaultServeMux_def appendSorted_def Let_def)

lemma main_eq:
  "main NSS =
     Some \<lparr>Addr = '':8080'',
           srvHandler = Cors_Handler (cors_New NSS corsOptions)
             (ServeMux_ServeHTTP
                \<lparr>mux_m = [''/'' \<mapsto> \<lparr>entry_h = handler, entry_pattern = ''/''\<rparr>],
                 mux_es = [\<lparr>entry_h = handler, entry_pattern = ''/''\<rparr>]\<rparr>)\<rparr>"
  by (simp add: main_def HandleFunc_root Let_def)

lemma root_no_redirect:
  "\<not> shouldRedirectRLocked
       \<lparr>mux_m = [''/'' \<mapsto> \<lparr>entry_h = handler, entry_pattern = ''/''\<rparr>],
        mux_es = [\<lparr>entry_h = handler, entry_pattern = ''/''\<rparr>]\<rparr> p"
  by (simp add: shouldRedirectRLocked_def)







lemma actual_unwritten [simp]:
  "wroteHeader (handleActualRequest c w r) = wroteHeader w"
  "body (handleActualRequest c w r) = body w"
  "status (handleActualRequest c w r) = status w"
  by (simp_all add: handleActualRequest_def Let_def)



lemma cors_main_fields:
  "allowedOriginsAll (cors_New NSS corsOptions)"
  "\<not> allowedHeadersAll (cors_New NSS corsOptions)"
  "allowedHeaders (cors_New NSS corsOptions) = NSS [''content-type'']"
  "allowedMethods (cors_New NSS corsOptions) = [''GET'', ''POST'', ''PUT'', ''DELETE'', ''OPTIONS'']"
  "exposedHeaders (cors_New NSS corsOptions) = []"
  "maxAge (cors_New NSS corsOptions) = []"
  "\<not> allowCredentials (cors_New NSS corsOptions)"
  "\<not> allowPrivateNetwork (cors_New NSS corsOptions)"
  "\<not> optionPassthrough (cors_New NSS corsOptions)"
  "optionsSuccessStatus (cors_New NSS corsOptions) = 204"
  by (simp_all add: cors_New_def corsOptions_def Let_def ToLower_def StatusNoContent_def)


lemma handler_header [simp]: "header (handler w r) = header w"
  by (simp add: handler_def Fprintf_def Write_def WriteHeader_def Let_def)

lemma NotFound_allow_origin [simp]:
  "header (NotFound w r) ''Access-Control-Allow-Origin'' = header w ''Access-Control-Allow-Origin''"
  by (simp add: NotFound_def Error_def Write_def WriteHeader_def Header_Set_def Let_def)

lemma Redirect_allow_origin [simp]:
  "header (Redirect url code w r) ''Access-Control-Allow-Origin'' =
   header w ''Access-Control-Allow-Origin''"
  by (simp add: Redirect_def WriteHeader_def Header_Set_def)


lemma WriteHeader_header [simp]: "header (WriteHeader w code) = header w"
  by (simp add: WriteHeader_def)



lemma preflightVary_main:
  "preflightVary (cors_New NSS corsOptions) =
      [''Origin, Access-Control-Request-Method, Access-Control-Request-Headers'']"
  by (simp add: cors_New_def Let_def)








lemmas run_defs = respond_def main_eq serve_def globalOptionsHandler_def Cors_Handler_def
  handlePreflight_def handleActualRequest_def isOriginAllowed_def isMethodAllowed_def
  cors_main_fields preflightVary_main ServeMux_ServeHTTP_def ServeMux_Handler_def
  root_no_redirect ServeMux_handler_def ServeMux_match_def HasPrefix_def handler_def
  Fprintf_def Write_def WriteHeader_def bodyAllowedForStatus_def status_defs
  newResponseWriter_def Header_Get_def Header_Set_def Header_Add_def NotFound_def Error_def
  Redirect_def cleanPath_def Clean_def isPreflight_def preflightAllowed_def plainSet_def
  trimOWS_def isOWS_def Let_def


subsection \<open>Requests to the root path\<close>




subsection \<open>The \<open>Access-Control-Allow-Origin\<close> header\<close>




subsection \<open>Pre-flight requests\<close>




subsection \<open>Requests to other paths\<close>




subsection \<open>The handler keeps no state\<close>

text \<open>
  Claim C7. The handler reads nothing of the request and no state of the program:
  from the same writer it produces the same response for any two requests, and on a
  fresh writer the body is always \<open>Hello from Go API!\<close>.
\<close>

theorem handler_stateless:
  "handler w r1 = handler w r2 \<and>
   body (handler newResponseWriter r1) = ''Hello from Go API!'' \<and>
   body (handler newResponseWriter r2) = ''Hello from Go API!''"
  by (simp add: handler_def Fprintf_def Write_def WriteHeader_def newResponseWriter_def
      bodyAllowedForStatus_def status_defs Let_def)

section \<open>Properties of the client\<close>

subsection \<open>One request per session\<close>

lemma mount_eq:
  "mount = \<lparr>message = [], effect_deps = Some [], in_flight = [fetch_url],
            requests = [(''GET'', fetch_url)], commits = []\<rparr>"
  by (simp add: mount_def App_commit_def useEffect_def App_initial_def effect_def fetch_def)

lemma App_commit_mounted: "effect_deps st = Some [] \<Longrightarrow> App_commit st = st"
  by (simp add: App_commit_def useEffect_def areHookInputsEqual_def)

lemma session_inv_mount: "session_inv mount"
  by (simp add: session_inv_def mount_eq)

lemma session_inv_step: "session_inv st \<Longrightarrow> session_inv (step st ev)"
proof (cases ev)
  case Rerender
  assume "session_inv st"
  then show ?thesis
    using Rerender by (simp add: App_commit_mounted session_inv_def)
next
  case (Settled p)
  assume inv: "session_inv st"
  then have deps: "effect_deps st = Some []"
    by (simp add: session_inv_def)
  show ?thesis
  proof (cases "in_flight st")
    case Nil
    with inv Settled show ?thesis by simp
  next
    case (Cons u rest)
    with inv have st: "in_flight st = [fetch_url]" "commits st = []" "message st = []"
      "rest = []"
      by (auto simp: session_inv_def)
    show ?thesis
    proof (cases "then_p p (\<lambda>res. res_text res)")
      case (Fulfilled data)
      with Settled Cons st deps inv show ?thesis
        by (simp add: App_commit_mounted setMessage_def session_inv_def)
    next
      case Rejected
      with Settled Cons st deps inv show ?thesis
        by (simp add: session_inv_def)
    qed
  qed
qed

lemma session_inv_foldl: "session_inv st \<Longrightarrow> session_inv (foldl step st evs)"
  by (induction evs arbitrary: st) (simp_all add: session_inv_step)

lemma session_inv_session: "session_inv (session evs)"
  by (simp add: session_def session_inv_foldl session_inv_mount)

text \<open>
  Claim C6. In every session, whatever re-renders and settlements follow the mount,
  exactly one request has been issued, the GET that the effect sends when the
  component mounts, and at most one request is in flight.
\<close>

theorem one_request_per_session:
  "requests (session evs) = [(''GET'', fetch_url)] \<and> length (in_flight (session evs)) \<le> 1"
  using session_inv_session [of evs] by (auto simp: session_inv_def)

subsection \<open>What a settlement does to the display state\<close>

lemma step_quiet:
  "\<not> delivers ev \<Longrightarrow>
   message (step st ev) = message st \<and> commits (step st ev) = commits st \<and>
   requests (step st ev) = requests st \<and> effect_deps (step st ev) = effect_deps st"
  if "effect_deps st = Some []"
  using that
  by (cases ev)
    (auto simp: delivers_def App_commit_mounted split: list.splits settled.splits)

lemma foldl_quiet:
  "effect_deps st = Some [] \<Longrightarrow> \<not> list_ex delivers evs \<Longrightarrow>
   message (foldl step st evs) = message st \<and> commits (foldl step st evs) = commits st \<and>
   requests (foldl step st evs) = requests st"
proof (induction evs arbitrary: st)
  case Nil
  then show ?case by simp
next
  case (Cons ev evs)
  from Cons.prems have q: "\<not> delivers ev" "\<not> list_ex delivers evs"
    by simp_all
  from step_quiet [OF Cons.prems(1) q(1)] have
    same: "message (step st ev) = message st" "commits (step st ev) = commits st"
      "requests (step st ev) = requests st" and
    deps: "effect_deps (step st ev) = Some []"
    using Cons.prems(1) by simp_all
  from Cons.IH [OF deps q(2)] same show ?case
    by simp
qed

lemma finished_stays:
  assumes "effect_deps st = Some []" "in_flight st = []"
  shows "foldl step st evs = st"
proof (induction evs)
  case Nil
  show ?case by simp
next
  case (Cons ev evs)
  have "step st ev = st"
    using assms by (cases ev) (simp_all add: App_commit_mounted)
  with Cons show ?case by simp
qed

lemma rerenders_stay:
  "effect_deps st = Some [] \<Longrightarrow> foldl step st (replicate n Rerender) = st"
  by (induction n) (simp_all add: App_commit_mounted)

lemma session_delivery:
  "session (replicate n Rerender @ Settled (Fulfilled \<lparr>res_status = s, res_text = Fulfilled data\<rparr>) # evs) =
     \<lparr>message = data, effect_deps = Some [], in_flight = [],
      requests = [(''GET'', fetch_url)], commits = [data]\<rparr>"
proof -
  have a: "foldl step mount (replicate n Rerender) = mount"
    by (rule rerenders_stay) (simp add: mount_eq)
  have b: "step mount (Settled (Fulfilled \<lparr>res_status = s, res_text = Fulfilled data\<rparr>)) =
     \<lparr>message = data, effect_deps = Some [], in_flight = [],
      requests = [(''GET'', fetch_url)], commits = [data]\<rparr>"
    by (simp add: mount_eq then_p_def setMessage_def App_commit_mounted)
  show ?thesis
    unfolding session_def foldl_append a foldl_Cons b
    by (rule finished_stays) simp_all
qed

lemma respond_browser_get:
  "origin \<noteq> [] \<Longrightarrow>
   respond NSS \<lparr>Method = ''GET'', Path = ''/'', ReqHeader = [''Origin'' \<mapsto> [origin]]\<rparr> =
     Some \<lparr>header = [''Vary'' \<mapsto> [''Origin''], ''Access-Control-Allow-Origin'' \<mapsto> [''*'']],
           wroteHeader = True, status = 200, body = ''Hello from Go API!'',
           informational = []\<rparr>"
  by (simp add: run_defs)

lemma browser_fetch_eq:
  "origin \<noteq> [] \<Longrightarrow>
   browser_fetch NSS origin =
     Fulfilled \<lparr>res_status = 200, res_text = Fulfilled ''Hello from Go API!''\<rparr>"
  by (simp add: browser_fetch_def respond_browser_get)

text \<open>
  Claim C5. The display state starts as the empty string, the loading sentinel. In
  every session at most one value is ever committed to it. When the request is
  answered by the running backend, the page being of any origin, the state becomes
  \<open>Hello from Go API!\<close> and stays so whatever follows.
\<close>

theorem display_state_single_assignment:
  "message App_initial = [] \<and> message mount = [] \<and>
   length (commits (session evs)) \<le> 1 \<and>
   (origin \<noteq> [] \<longrightarrow>
      message (session (replicate n Rerender @ Settled (browser_fetch NSS origin) # evs'))
        = ''Hello from Go API!'' \<and>
      commits (session (replicate n Rerender @ Settled (browser_fetch NSS origin) # evs'))
        = [''Hello from Go API!''])"
  using session_inv_session [of evs]
  by (auto simp: browser_fetch_eq session_delivery App_initial_def mount_eq session_inv_def)

theorem display_state_single_assignment_witness:
  "message (session (replicate 2 Rerender @
       Settled (browser_fetch plainSet ''http://192.168.67.2:30000'') #
       [Rerender, Settled (Fulfilled \<lparr>res_status = 200, res_text = Fulfilled ''again''\<rparr>)]))
     = ''Hello from Go API!'' \<and>
   commits (session (replicate 2 Rerender @
       Settled (browser_fetch plainSet ''http://192.168.67.2:30000'') #
       [Rerender, Settled (Fulfilled \<lparr>res_status = 200, res_text = Fulfilled ''again''\<rparr>)]))
     = [''Hello from Go API!'']"
  using display_state_single_assignment [of "[]" "''http://192.168.67.2:30000''" 2 plainSet
      "[Rerender, Settled (Fulfilled \<lparr>res_status = 200, res_text = Fulfilled ''again''\<rparr>)]"]
  by simp

text \<open>
  Claim C2, as stated, fails for a response with a status outside 2xx: the source
  never looks at the status, so the body of a 500 is committed and shown like the
  body of a success.
\<close>

theorem failed_fetch_display_counterexample:
  "message (session [Settled (Fulfilled
       \<lparr>res_status = 500, res_text = Fulfilled ''Internal Server Error''\<rparr>)])
     = ''Internal Server Error'' \<and>
   App_view (session [Settled (Fulfilled
       \<lparr>res_status = 500, res_text = Fulfilled ''Internal Server Error''\<rparr>)])
     = ''Internal Server Error''"
  by (simp add: session_def mount_eq then_p_def setMessage_def App_commit_mounted
      App_view_def js_or_def)

text \<open>
  Claim C2, amended. As long as no settlement delivers a text (the \<open>fetch\<close> is
  rejected: a network error, a timeout of the network layer; or the body cannot be
  read), the display state stays the loading sentinel, nothing is committed, the view
  shows \<open>Loading...\<close>, and the one request of the mount is the only one issued: there
  is no retry. A response whose body can be read is committed whatever its status.
\<close>

theorem failed_fetch_display:
  "(\<not> list_ex delivers evs \<longrightarrow>
      message (session evs) = [] \<and> commits (session evs) = [] \<and>
      App_view (session evs) = ''Loading...'' \<and>
      requests (session evs) = [(''GET'', fetch_url)]) \<and>
   message (session (replicate n Rerender @
       Settled (Fulfilled \<lparr>res_status = s, res_text = Fulfilled data\<rparr>) # evs')) = data"
proof -
  have "message (session evs) = [] \<and> commits (session evs) = [] \<and>
      App_view (session evs) = ''Loading...'' \<and>
      requests (session evs) = [(''GET'', fetch_url)]" if "\<not> list_ex delivers evs"
    using foldl_quiet [of mount evs] that
    by (simp add: session_def mount_eq App_view_def js_or_def)
  then show ?thesis
    by (simp add: session_delivery)
qed

theorem failed_fetch_display_witness:
  "message (session [Rerender, Settled Rejected, Rerender]) = [] \<and>
   commits (session [Rerender, Settled Rejected, Rerender]) = [] \<and>
   App_view (session [Rerender, Settled Rejected, Rerender]) = ''Loading...'' \<and>
   requests (session [Rerender, Settled Rejected, Rerender]) = [(''GET'', fetch_url)]"
  using failed_fetch_display [of "[Rerender, Settled Rejected, Rerender]" 0 0 "[]" "[]"]
  by (simp add: delivers_def then_p_def)

subsection \<open>The loading indicator\<close>

text \<open>
  Claim C10. The loading sentinel is the empty string. The view shows the
  placeholder \<open>Loading...\<close> in place of the state exactly when the state is the
  empty string, and shows any other state as it is. So whenever the request of a
  session is answered with an empty body that can be read, whatever the status,
  the re-renders before it and the events after it, the empty string is committed,
  no request is left in flight, and the view still shows \<open>Loading...\<close>.
\<close>

theorem loading_view:
  "message App_initial = [] \<and>
   App_view st = (if message st = [] then ''Loading...'' else message st) \<and>
   commits (session (replicate n Rerender @
       Settled (Fulfilled \<lparr>res_status = s, res_text = Fulfilled []\<rparr>) # evs)) = [[]] \<and>
   message (session (replicate n Rerender @
       Settled (Fulfilled \<lparr>res_status = s, res_text = Fulfilled []\<rparr>) # evs)) = [] \<and>
   in_flight (session (replicate n Rerender @
       Settled (Fulfilled \<lparr>res_status = s, res_text = Fulfilled []\<rparr>) # evs)) = [] \<and>
   App_view (session (replicate n Rerender @
       Settled (Fulfilled \<lparr>res_status = s, res_text = Fulfilled []\<rparr>) # evs)) = ''Loading...''"
  by (simp add: session_delivery App_initial_def App_view_def js_or_def)

section \<open>Properties of the deployment\<close>

lemma listen_port_main: "listen_port '':8080'' = Some 8080"
  by (simp add: listen_port_def atoi_def)

text \<open>
  Claim C8. The backend listens on port 8080. The service \<open>go-api-service\<close> declares
  8080 as its port and as its target port, the container of the deployment declares
  the same port, the service selects the pod of the deployment, and every endpoint
  the service resolves to on port 8080 is a port the backend listens on.
\<close>

theorem backend_listens_on_service_port:
  "map_option (\<lambda>srv. listen_port (Addr srv)) (main NSS) = Some (Some 8080) \<and>
   service_name go_api_service = ''go-api-service'' \<and>
   map port (ports go_api_service) = [8080] \<and>
   map targetPort (ports go_api_service) = [8080] \<and>
   concat (map containerPorts (containers go_api_deployment)) = [8080] \<and>
   endpoints go_api_service 8080 (pods_of go_api_deployment) \<noteq> [] \<and>
   list_all (\<lambda>ep. listens_on NSS (snd ep))
     (endpoints go_api_service 8080 (pods_of go_api_deployment))"
  by (simp add: main_eq listen_port_main listens_on_def go_api_service_def
      go_api_deployment_def endpoints_def pods_of_def selects_def)

end
